theory Spec2Isabelle
  imports Complex_Main
begin

section \<open>Python values, exceptions and library objects\<close>

text \<open>
  The service is a FastAPI application (\<^verbatim>\<open>backend/main.py\<close>) over a storage layer
  (\<^verbatim>\<open>backend/blob_storage.py\<close>). Floating-point quantities are read as real numbers and a
  \<^verbatim>\<open>datetime\<close> as a point of a linear time axis. An exception raised by the Python code is
  the \<open>Inl\<close> branch of a sum. The boosted-tree library is a parameter (the record \<open>libs\<close>),
  since its code is not part of the repository.

  \<^verbatim>\<open>main.py\<close> refers to the names \<^verbatim>\<open>pd\<close>, \<^verbatim>\<open>np\<close> and \<^verbatim>\<open>Prophet\<close> in the body of
  \<^verbatim>\<open>generate_live_forecast\<close>, but no statement of the module binds them: its imports are
  \<^verbatim>\<open>contextlib\<close>, \<^verbatim>\<open>fastapi\<close>, \<^verbatim>\<open>prisma\<close>, \<^verbatim>\<open>pydantic\<close>, \<^verbatim>\<open>typing\<close>, \<^verbatim>\<open>datetime\<close>, \<^verbatim>\<open>pickle\<close>,
  \<^verbatim>\<open>os\<close>, \<^verbatim>\<open>lightgbm\<close>, \<^verbatim>\<open>io\<close>, \<^verbatim>\<open>abc\<close> and, from \<^verbatim>\<open>blob_storage\<close>, the one name
  \<^verbatim>\<open>get_storage_backend\<close>. The request handler is modelled with the name lookup it performs.
\<close>

type_synonym timestamp = int

datatype value_msg =
    ContractViolation int int
  | CloudContractViolation

datatype py_exception =
    HTTPException nat http_detail
  | NameError string
  | FileNotFoundError string
  | ValueError value_msg
  | PermissionError
  | ServiceRequestError
  | ResourceNotFoundError
and http_detail =
    Text string
  | StrOf py_exception

text \<open>What \<^verbatim>\<open>pickle.load\<close> can give back: a fitted trend model or the label encoder
  (its \<^verbatim>\<open>classes_\<close>).\<close>

datatype 'm py_obj = ProphetModel 'm | LabelEncoder "string list"

text \<open>Rows of the tables \<^verbatim>\<open>sales_history\<close> and \<^verbatim>\<open>sales_forecast\<close>
  (\<^verbatim>\<open>SalesRecord\<close>, \<^verbatim>\<open>ForecastRecord\<close>); \<open>history_row\<close> is a row of the frame
  \<^verbatim>\<open>df_history\<close> that the text of the handler builds, the same columns and \<^verbatim>\<open>y_log\<close>.\<close>

record sales_record =
  h_product_code :: string
  h_ds :: timestamp
  h_y :: real

record history_row = sales_record +
  h_y_log :: real

record forecast_record =
  fr_product_code :: string
  fr_forecast_date :: timestamp
  fr_predicted_sales :: real

record prophet_args =
  yearly_seasonality :: bool
  weekly_seasonality :: bool
  daily_seasonality :: bool

record response =
  resp_status :: string
  resp_message :: string
  resp_forecast :: "(string \<times> real) list"


text \<open>The storage object of \<^verbatim>\<open>app.state.storage\<close>, by the two methods \<^verbatim>\<open>lifespan\<close> calls
  on it (declared by the abstract class \<^verbatim>\<open>StorageBackend\<close> of \<^verbatim>\<open>main.py\<close>). The classes of
  \<^verbatim>\<open>blob_storage.py\<close>, whose factory \<^verbatim>\<open>main.py\<close> imports over its own, have other methods
  (\<^verbatim>\<open>load_global_lgbm\<close>, \<^verbatim>\<open>load_prophet_model\<close>); they are modelled further down.\<close>

record ('m, 'b) storage =
  download_pickle :: "string \<Rightarrow> py_exception + 'm py_obj option"
  load_lgbm :: "string \<Rightarrow> py_exception + 'b"

text \<open>The module-level dictionary \<^verbatim>\<open>models\<close> and the two tables of the database.\<close>

record ('m, 'b) app =
  models_lgb :: "'b option"
  models_encoder :: "'m py_obj option"
  saleshistory :: "sales_record list"
  salesforecast :: "forecast_record list"

text \<open>The calls that the text of \<^verbatim>\<open>generate_live_forecast\<close> makes to the database, the
  storage and the two model libraries: \<^verbatim>\<open>find_many\<close> (line 230), \<^verbatim>\<open>download_pickle\<close> (248),
  \<^verbatim>\<open>Prophet(...)\<close> and \<^verbatim>\<open>fit\<close> (256 to 261), \<^verbatim>\<open>make_future_dataframe\<close> (264), \<^verbatim>\<open>predict\<close> of
  the trend model (265) and of the correction model (290), \<^verbatim>\<open>add_task\<close> (296), \<^verbatim>\<open>delete_many\<close>
  (321) and \<^verbatim>\<open>create_many\<close> (322). The outcome of a request lists the calls it made, in
  order.\<close>

datatype 'm call =
    FindHistory string
  | DownloadPickle string
  | ProphetFit prophet_args "history_row list"
  | MakeFuture nat string
  | ProphetPredict "timestamp list"
  | LgbmPredict "real list list"
  | AddTaskUpload string 'm
  | DeleteMany string
  | CreateMany "forecast_record list"

record ('m, 'b) outcome =
  result :: "py_exception + response"
  app_after :: "('m, 'b) app"
  calls :: "'m call list"

section \<open>The live forecast request\<close>

text \<open>The names bound in the global namespace of \<^verbatim>\<open>main.py\<close> once the module is loaded, in
  the order of the statements that bind them (lines 1 to 11, the classes and the function of
  lines 14 to 103, \<^verbatim>\<open>models\<close>, the three pydantic classes, the import of line 130, and
  the definitions from \<^verbatim>\<open>lifespan\<close> on), and the builtin names the module refers to. A name
  that is in neither list and is not one of the attributes every module has
  (\<^verbatim>\<open>__name__\<close>, \<^verbatim>\<open>__file__\<close> and the like) raises \<^verbatim>\<open>NameError\<close> when it is evaluated; no
  builtin of Python is called \<^verbatim>\<open>pd\<close>, \<^verbatim>\<open>np\<close> or \<^verbatim>\<open>Prophet\<close>.\<close>

definition main_globals :: "string list" where
  "main_globals =
     [''asynccontextmanager'', ''FastAPI'', ''HTTPException'', ''BackgroundTasks'', ''Prisma'',
      ''BaseModel'', ''List'', ''Optional'', ''datetime'', ''pickle'', ''os'', ''lgb'', ''io'',
      ''ABC'', ''abstractmethod'', ''StorageBackend'', ''LocalStorage'', ''AzureBlobStorage'',
      ''get_storage_backend'', ''models'', ''SalesRecord'', ''ForecastRecord'',
      ''MetricsResponse'', ''lifespan'', ''app'', ''get_history'', ''get_forecast'',
      ''get_metrics'', ''generate_live_forecast'']"

definition builtins_used :: "string list" where
  "builtins_used =
     [''print'', ''open'', ''len'', ''vars'', ''float'', ''round'', ''str'', ''Exception'',
      ''ValueError'', ''ImportError'', ''FileNotFoundError'']"

definition global_name :: "string \<Rightarrow> py_exception + string" where
  "global_name n =
     (if n \<in> set main_globals \<or> n \<in> set builtins_used then Inr n else Inl (NameError n))"

text \<open>\<^verbatim>\<open>db.saleshistory.find_many(where={'product_code': product_id}, order={'ds': 'asc'})\<close>:
  the rows of the product by date, or the exception of the database client when the query
  fails (\<open>db_error\<close>).\<close>

definition find_many_history :: "sales_record list \<Rightarrow> string \<Rightarrow> sales_record list" where
  "find_many_history table product_id =
     sort_key h_ds (filter (\<lambda>r. h_product_code r = product_id) table)"

definition saleshistory_find_many ::
  "py_exception option \<Rightarrow> sales_record list \<Rightarrow> string \<Rightarrow> py_exception + sales_record list" where
  "saleshistory_find_many db_error table product_id =
     (case db_error of
        Some e \<Rightarrow> Inl e
      | None \<Rightarrow> Inr (find_many_history table product_id))"

text \<open>The rows of a product in \<^verbatim>\<open>sales_forecast\<close>.\<close>

definition product_rows :: "string \<Rightarrow> forecast_record list \<Rightarrow> forecast_record list" where
  "product_rows product_id table = filter (\<lambda>r. fr_product_code r = product_id) table"

definition raised :: "('m, 'b) app \<Rightarrow> 'm call list \<Rightarrow> py_exception \<Rightarrow> ('m, 'b) outcome" where
  "raised A t e = \<lparr>result = Inl e, app_after = A, calls = t\<rparr>"

text \<open>The \<^verbatim>\<open>try\<close> block of \<^verbatim>\<open>generate_live_forecast\<close>. The reads of \<^verbatim>\<open>app.state\<close> and of
  \<^verbatim>\<open>models\<close> (lines 226 to 229) call nothing. Line 230 queries the history; lines 239 and 240
  raise the 404 exception for an empty one (the text of its detail is written here without
  the quotation marks around \<^verbatim>\<open>sales_history\<close>). Line 242,
  \<^verbatim>\<open>df_history = pd.DataFrame([vars(r) for r in history_records])\<close>, first evaluates the
  global name \<^verbatim>\<open>pd\<close>. The statements after that lookup (the rest of line 242 to line 329:
  the frame, the storage read, the fit, the two predictions, \<^verbatim>\<open>delete_many\<close> and
  \<^verbatim>\<open>create_many\<close>) are the parameter \<open>rest\<close>: they run only if the lookup returns.\<close>

definition live_forecast_try ::
  "(sales_record list \<Rightarrow> ('m, 'b) outcome) \<Rightarrow> py_exception option \<Rightarrow> ('m, 'b) app \<Rightarrow> string
   \<Rightarrow> ('m, 'b) outcome" where
  "live_forecast_try rest db_error A product_id =
    (let t0 = [FindHistory product_id]
     in case saleshistory_find_many db_error (saleshistory A) product_id of
          Inl e \<Rightarrow> raised A t0 e
        | Inr history_records \<Rightarrow>
     if history_records = []
     then raised A t0 (HTTPException 404
            (Text ''No sales history found. Add data to sales_history first.''))
     else case global_name ''pd'' of
            Inl e \<Rightarrow> raised A t0 e
          | Inr pd \<Rightarrow> rest history_records)"

text \<open>\<^verbatim>\<open>except Exception as e: raise HTTPException(status_code=500, detail=str(e))\<close>:
  \<^verbatim>\<open>HTTPException\<close> and \<^verbatim>\<open>NameError\<close> are themselves \<^verbatim>\<open>Exception\<close>s, so the handler takes
  every exception raised in the block.\<close>

definition generate_live_forecast ::
  "(sales_record list \<Rightarrow> ('m, 'b) outcome) \<Rightarrow> py_exception option \<Rightarrow> ('m, 'b) app \<Rightarrow> string
   \<Rightarrow> ('m, 'b) outcome" where
  "generate_live_forecast rest db_error A product_id =
    (let out = live_forecast_try rest db_error A product_id
     in case result out of
          Inl e \<Rightarrow> out\<lparr>result := Inl (HTTPException 500 (StrOf e))\<rparr>
        | Inr r \<Rightarrow> out)"

section \<open>The storage backends\<close>

text \<open>The local disk and the blob container, by what the storage classes ask of them. Each
  field is one step of the source that either raises or returns: \<^verbatim>\<open>os.path.exists\<close>;
  \<^verbatim>\<open>open(path, 'rb')\<close> then \<^verbatim>\<open>pickle.load\<close>; \<^verbatim>\<open>open(path, 'wb')\<close> then \<^verbatim>\<open>pickle.dump\<close>;
  \<^verbatim>\<open>lgb.Booster(model_file=path)\<close>; \<^verbatim>\<open>open(path, 'r')\<close> then \<^verbatim>\<open>model_from_json\<close>; and, for the
  container, the download of a blob followed by the same decoding, and the upload.\<close>

record ('m, 'b) disk =
  path_exists :: "string \<Rightarrow> bool"
  read_pickle :: "string \<Rightarrow> py_exception + 'm py_obj"
  write_pickle :: "string \<Rightarrow> 'm py_obj \<Rightarrow> py_exception + unit"
  booster_from_file :: "string \<Rightarrow> py_exception + 'b"
  read_prophet_json :: "string \<Rightarrow> py_exception + 'm"

record ('m, 'b) container =
  blob_read_pickle :: "string \<Rightarrow> py_exception + 'm py_obj"
  blob_upload_pickle :: "string \<Rightarrow> 'm py_obj \<Rightarrow> py_exception + unit"
  blob_booster :: "string \<Rightarrow> py_exception + 'b"
  blob_prophet_json :: "string \<Rightarrow> py_exception + 'm"

text \<open>\<^verbatim>\<open>os.path.join\<close> of two components (POSIX).\<close>

definition path_join :: "string \<Rightarrow> string \<Rightarrow> string" where
  "path_join a b =
     (if b \<noteq> [] \<and> hd b = CHR ''/'' then b
      else if a = [] \<or> last a = CHR ''/'' then a @ b
      else a @ ''/'' @ b)"

subsection \<open>\<^verbatim>\<open>main.py\<close>: \<^verbatim>\<open>LocalStorage\<close> and \<^verbatim>\<open>AzureBlobStorage\<close>\<close>

definition LocalStorage_download_pickle ::
  "('m, 'b) disk \<Rightarrow> string \<Rightarrow> string \<Rightarrow> py_exception + 'm py_obj option" where
  "LocalStorage_download_pickle D base_dir filename =
     (let path = path_join base_dir filename
      in if \<not> path_exists D path then Inr None
         else case read_pickle D path of
                Inl e \<Rightarrow> Inl e
              | Inr obj \<Rightarrow> Inr (Some obj))"

definition LocalStorage_upload_pickle ::
  "('m, 'b) disk \<Rightarrow> string \<Rightarrow> 'm py_obj \<Rightarrow> string \<Rightarrow> py_exception + unit" where
  "LocalStorage_upload_pickle D base_dir obj filename =
     write_pickle D (path_join base_dir filename) obj"

definition LocalStorage_load_lgbm ::
  "('m, 'b) disk \<Rightarrow> string \<Rightarrow> string \<Rightarrow> py_exception + 'b" where
  "LocalStorage_load_lgbm D base_dir filename =
     (let potential_paths =
            [path_join base_dir filename, ''models/global_lgbm/'' @ filename, filename]
      in case filter (path_exists D) potential_paths of
           p # ps \<Rightarrow> booster_from_file D p
         | [] \<Rightarrow> Inl (FileNotFoundError ''LGBM model not found''))"

definition AzureBlobStorage_download_pickle ::
  "('m, 'b) container \<Rightarrow> string \<Rightarrow> py_exception + 'm py_obj option" where
  "AzureBlobStorage_download_pickle C filename =
     (case blob_read_pickle C filename of
        Inl e \<Rightarrow> Inr None
      | Inr obj \<Rightarrow> Inr (Some obj))"

definition AzureBlobStorage_upload_pickle ::
  "('m, 'b) container \<Rightarrow> 'm py_obj \<Rightarrow> string \<Rightarrow> py_exception + unit" where
  "AzureBlobStorage_upload_pickle C obj filename = blob_upload_pickle C filename obj"

definition AzureBlobStorage_load_lgbm ::
  "('m, 'b) container \<Rightarrow> string \<Rightarrow> py_exception + 'b" where
  "AzureBlobStorage_load_lgbm C filename = blob_booster C filename"

definition LocalStorage :: "('m, 'b) disk \<Rightarrow> string \<Rightarrow> ('m, 'b) storage" where
  "LocalStorage D base_dir =
     \<lparr>download_pickle = LocalStorage_download_pickle D base_dir,
      load_lgbm = LocalStorage_load_lgbm D base_dir\<rparr>"

definition AzureBlobStorage :: "('m, 'b) container \<Rightarrow> ('m, 'b) storage" where
  "AzureBlobStorage C =
     \<lparr>download_pickle = AzureBlobStorage_download_pickle C,
      load_lgbm = AzureBlobStorage_load_lgbm C\<rparr>"

subsection \<open>\<^verbatim>\<open>blob_storage.py\<close>: the manifest contract and the per-product trend models\<close>




definition LocalStorage_load_prophet_model ::
  "('m, 'b) disk \<Rightarrow> string \<Rightarrow> string \<Rightarrow> py_exception + 'm option" where
  "LocalStorage_load_prophet_model D base_dir product_id =
     (let path = path_join (path_join base_dir ''prophet_individual'') (product_id @ ''.json'')
      in if \<not> path_exists D path then Inr None
         else case read_prophet_json D path of
                Inl e \<Rightarrow> Inl e
              | Inr m \<Rightarrow> Inr (Some m))"

definition AzureBlobStorage_load_prophet_model ::
  "('m, 'b) container \<Rightarrow> string \<Rightarrow> py_exception + 'm option" where
  "AzureBlobStorage_load_prophet_model C product_id =
     (case blob_prophet_json C (''prophet_individual/'' @ product_id @ ''.json'') of
        Inl e \<Rightarrow> Inr None
      | Inr m \<Rightarrow> Inr (Some m))"

section \<open>Startup\<close>



section \<open>An example deployment\<close>


definition weekly_history :: "string \<Rightarrow> nat \<Rightarrow> sales_record list" where
  "weekly_history product_id n =
     map (\<lambda>k. \<lparr>h_product_code = product_id, h_ds = 7 * int k, h_y = 1\<rparr>) [0..<n]"

definition example_app :: "nat \<Rightarrow> (timestamp list, int) app" where
  "example_app n =
     \<lparr>models_lgb = Some 7, models_encoder = Some (LabelEncoder [''P1'']),
      saleshistory = weekly_history ''P1'' n @ weekly_history ''P9'' n, salesforecast = []\<rparr>"

text \<open>The same deployment with 60 weeks of history and one forecast row of an earlier run
  persisted for P1.\<close>

definition stale_forecast :: "forecast_record list" where
  "stale_forecast =
     [\<lparr>fr_product_code = ''P1'', fr_forecast_date = 0, fr_predicted_sales = 5\<rparr>]"

definition seeded_app :: "(timestamp list, int) app" where
  "seeded_app = (example_app 60)\<lparr>salesforecast := stale_forecast\<rparr>"



definition mismatch_container :: "(timestamp list, int) container" where
  "mismatch_container =
     \<lparr>blob_read_pickle = (\<lambda>f. Inl ResourceNotFoundError),
      blob_upload_pickle = (\<lambda>f obj. Inr ()),
      blob_booster = (\<lambda>f. Inr 7),
      blob_prophet_json = (\<lambda>f. Inl ResourceNotFoundError)\<rparr>"


definition unreachable_container :: "(timestamp list, int) container" where
  "unreachable_container =
     \<lparr>blob_read_pickle = (\<lambda>f. Inl ServiceRequestError),
      blob_upload_pickle = (\<lambda>f obj. Inl ServiceRequestError),
      blob_booster = (\<lambda>f. Inl ServiceRequestError),
      blob_prophet_json = (\<lambda>f. Inl ServiceRequestError)\<rparr>"

definition unreadable_disk :: "(timestamp list, int) disk" where
  "unreadable_disk =
     \<lparr>path_exists = (\<lambda>p. True),
      read_pickle = (\<lambda>p. Inl PermissionError),
      write_pickle = (\<lambda>p obj. Inl PermissionError),
      booster_from_file = (\<lambda>p. Inl PermissionError),
      read_prophet_json = (\<lambda>p. Inl PermissionError)\<rparr>"

section \<open>Facts about the request handler\<close>

lemma global_name_pd: "global_name ''pd'' = Inl (NameError ''pd'')"
  by (simp add: global_name_def main_globals_def builtins_used_def)

lemma glf_db_error:
  assumes "saleshistory_find_many db_error (saleshistory A) p = Inl e"
  shows "generate_live_forecast rest db_error A p =
           \<lparr>result = Inl (HTTPException 500 (StrOf e)), app_after = A,
            calls = [FindHistory p]\<rparr>"
  using assms
  by (simp add: generate_live_forecast_def live_forecast_try_def raised_def Let_def)

lemma glf_empty:
  assumes "saleshistory_find_many db_error (saleshistory A) p = Inr []"
  shows "generate_live_forecast rest db_error A p =
           \<lparr>result = Inl (HTTPException 500 (StrOf (HTTPException 404
                (Text ''No sales history found. Add data to sales_history first.'')))),
            app_after = A, calls = [FindHistory p]\<rparr>"
  using assms
  by (simp add: generate_live_forecast_def live_forecast_try_def raised_def Let_def)

lemma glf_nonempty:
  assumes "saleshistory_find_many db_error (saleshistory A) p = Inr history_records"
      and "history_records \<noteq> []"
  shows "generate_live_forecast rest db_error A p =
           \<lparr>result = Inl (HTTPException 500 (StrOf (NameError ''pd''))), app_after = A,
            calls = [FindHistory p]\<rparr>"
  using assms
  by (simp add: generate_live_forecast_def live_forecast_try_def raised_def Let_def
      global_name_pd)

lemma glf_cases:
  obtains e where "generate_live_forecast rest db_error A p =
           \<lparr>result = Inl (HTTPException 500 (StrOf e)), app_after = A,
            calls = [FindHistory p]\<rparr>"
proof (cases "saleshistory_find_many db_error (saleshistory A) p")
  case (Inl e)
  from glf_db_error [OF this] that show thesis by blast
next
  case (Inr history_records)
  show thesis
  proof (cases "history_records = []")
    case True
    with Inr have "saleshistory_find_many db_error (saleshistory A) p = Inr []" by simp
    from glf_empty [OF this] that show thesis by blast
  next
    case False
    from glf_nonempty [OF Inr False] that show thesis by blast
  qed
qed

lemma glf_calls: "calls (generate_live_forecast rest db_error A p) = [FindHistory p]"
  by (rule glf_cases [of rest db_error A p]) simp

lemma glf_app_after: "app_after (generate_live_forecast rest db_error A p) = A"
  by (rule glf_cases [of rest db_error A p]) simp

lemma glf_result:
  "\<exists>e. result (generate_live_forecast rest db_error A p) = Inl (HTTPException 500 (StrOf e))"
  by (rule glf_cases [of rest db_error A p]) simp

section \<open>Facts about the example deployment\<close>

lemma weekly_history_filter:
  "filter (\<lambda>r. h_product_code r = p) (weekly_history q n) = (if p = q then weekly_history q n else [])"
  by (auto simp: weekly_history_def filter_map comp_def)

lemma weekly_history_sorted: "sorted (map h_ds (weekly_history p n))"
  by (auto simp: weekly_history_def comp_def sorted_iff_nth_mono)

lemma find_weekly_P1:
  "saleshistory_find_many None (saleshistory (example_app n)) ''P1''
     = Inr (weekly_history ''P1'' n)"
  by (simp add: saleshistory_find_many_def find_many_history_def example_app_def
      weekly_history_filter sort_key_id_if_sorted weekly_history_sorted)

lemma find_weekly_P9:
  "saleshistory_find_many None (saleshistory (example_app n)) ''P9''
     = Inr (weekly_history ''P9'' n)"
  by (simp add: saleshistory_find_many_def find_many_history_def example_app_def
      weekly_history_filter sort_key_id_if_sorted weekly_history_sorted)

lemma find_seeded_P1:
  "saleshistory_find_many None (saleshistory seeded_app) ''P1'' = Inr (weekly_history ''P1'' 60)"
  using find_weekly_P1 [of 60] by (simp add: seeded_app_def)

lemma weekly_history_length: "length (weekly_history p n) = n"
  by (simp add: weekly_history_def)

lemma weekly_history_nonempty: "0 < n \<Longrightarrow> weekly_history p n \<noteq> []"
  using weekly_history_length [of p n] by auto



section \<open>The claims\<close>

text \<open>Claim C1. For a product with an empty sales history the handler raises the 404 exception
  inside its \<^verbatim>\<open>try\<close> block and fits no trend model; the \<^verbatim>\<open>except Exception\<close> clause of the same
  block then takes that exception, so what the caller receives is status 500 whose detail is
  the text of the 404 exception, and the tables are left as they were.\<close>

theorem empty_history_is_reported_as_500:
  assumes "saleshistory_find_many db_error (saleshistory A) product_id = Inr []"
  shows "result (generate_live_forecast rest db_error A product_id) =
           Inl (HTTPException 500 (StrOf (HTTPException 404
             (Text ''No sales history found. Add data to sales_history first.''))))
       \<and> calls (generate_live_forecast rest db_error A product_id) = [FindHistory product_id]
       \<and> app_after (generate_live_forecast rest db_error A product_id) = A"
  by (simp add: glf_empty [OF assms])

theorem empty_history_is_reported_as_500_witness:
  "\<forall>rest. result (generate_live_forecast rest None (example_app 0) ''P2'') =
           Inl (HTTPException 500 (StrOf (HTTPException 404
             (Text ''No sales history found. Add data to sales_history first.''))))
   \<and> calls (generate_live_forecast rest None (example_app 0) ''P2'') = [FindHistory ''P2'']"
proof -
  have "saleshistory_find_many None (saleshistory (example_app 0)) ''P2'' = Inr []"
    by (simp add: saleshistory_find_many_def find_many_history_def example_app_def
        weekly_history_def)
  from empty_history_is_reported_as_500 [OF this]
  show ?thesis by simp
qed

text \<open>Claim C3, as the code has it. For a history that is not empty the request ends at line
  242, where the name \<^verbatim>\<open>pd\<close> is not bound: the caller receives status 500 whose detail is the
  text of the \<^verbatim>\<open>NameError\<close>, the only call made is the query of the history, so no \<^verbatim>\<open>log1p\<close>
  column is computed, nothing is handed to the trend model for fitting, and the correction
  model gives no prediction to which \<^verbatim>\<open>expm1\<close> and the clipping could be applied.\<close>

theorem log_transform_and_fit_are_never_reached:
  assumes "saleshistory_find_many db_error (saleshistory A) product_id = Inr history_records"
      and "history_records \<noteq> []"
  shows "result (generate_live_forecast rest db_error A product_id) =
           Inl (HTTPException 500 (StrOf (NameError ''pd'')))
       \<and> calls (generate_live_forecast rest db_error A product_id) = [FindHistory product_id]
       \<and> ProphetFit args df \<notin> set (calls (generate_live_forecast rest db_error A product_id))
       \<and> LgbmPredict X \<notin> set (calls (generate_live_forecast rest db_error A product_id))"
  by (simp add: glf_nonempty [OF assms])

theorem log_transform_and_fit_are_never_reached_witness:
  "\<forall>rest. result (generate_live_forecast rest None (example_app 2) ''P1'') =
           Inl (HTTPException 500 (StrOf (NameError ''pd'')))
   \<and> calls (generate_live_forecast rest None (example_app 2) ''P1'') = [FindHistory ''P1'']"
proof -
  have "weekly_history ''P1'' 2 \<noteq> []" by (simp add: weekly_history_nonempty)
  from log_transform_and_fit_are_never_reached [OF find_weekly_P1 this]
  show ?thesis by simp
qed

text \<open>Claim C5, as the code has it. For a history that is not empty and a product the encoder
  knows, the request returns no forecast rows: the caller receives status 500 whose detail is
  the text of the \<^verbatim>\<open>NameError\<close> of line 242, and the rows persisted for the product are those
  that were there before the request.\<close>

theorem nonempty_history_request_returns_500_and_persists_nothing:
  assumes "saleshistory_find_many db_error (saleshistory A) product_id = Inr history_records"
      and "history_records \<noteq> []"
      and "models_encoder A = Some (LabelEncoder classes)"
      and "product_id \<in> set classes"
  shows "result (generate_live_forecast rest db_error A product_id) =
           Inl (HTTPException 500 (StrOf (NameError ''pd'')))
       \<and> result (generate_live_forecast rest db_error A product_id) \<noteq> Inr resp
       \<and> product_rows product_id
           (salesforecast (app_after (generate_live_forecast rest db_error A product_id)))
         = product_rows product_id (salesforecast A)"
  by (simp add: glf_nonempty [OF assms(1,2)])

theorem nonempty_history_request_returns_500_and_persists_nothing_witness:
  "\<forall>rest. length (weekly_history ''P1'' 60) = 60
   \<and> saleshistory_find_many None (saleshistory (example_app 60)) ''P1''
       = Inr (weekly_history ''P1'' 60)
   \<and> result (generate_live_forecast rest None (example_app 60) ''P1'') =
           Inl (HTTPException 500 (StrOf (NameError ''pd'')))
   \<and> product_rows ''P1''
           (salesforecast (app_after (generate_live_forecast rest None (example_app 60) ''P1'')))
         = []"
proof -
  have nonempty: "weekly_history ''P1'' 60 \<noteq> []" by (simp add: weekly_history_nonempty)
  have enc: "models_encoder (example_app 60) = Some (LabelEncoder [''P1''])"
    by (simp add: example_app_def)
  have known: "''P1'' \<in> set [''P1'']" by simp
  have none: "product_rows ''P1'' (salesforecast (example_app 60)) = []"
    by (simp add: product_rows_def example_app_def)
  from nonempty_history_request_returns_500_and_persists_nothing
         [OF find_weekly_P1 nonempty enc known] none
  show ?thesis by (simp add: weekly_history_length find_weekly_P1)
qed

text \<open>Claim C6, as the code has it. For a product identifier that is not among the classes of
  the encoder and whose history is not empty, the request does not complete with a
  prediction: it ends at line 242 with the \<^verbatim>\<open>NameError\<close>, reported as status 500, before the
  lookup in the encoder (lines 280 to 284), and the correction model is never called.\<close>

theorem unseen_product_request_returns_500:
  assumes "saleshistory_find_many db_error (saleshistory A) product_id = Inr history_records"
      and "history_records \<noteq> []"
      and "models_encoder A = Some (LabelEncoder classes)"
      and "product_id \<notin> set classes"
  shows "result (generate_live_forecast rest db_error A product_id) =
           Inl (HTTPException 500 (StrOf (NameError ''pd'')))
       \<and> LgbmPredict X \<notin> set (calls (generate_live_forecast rest db_error A product_id))"
  by (simp add: glf_nonempty [OF assms(1,2)])

theorem unseen_product_request_returns_500_witness:
  "\<forall>rest X. ''P9'' \<notin> set [''P1'']
   \<and> result (generate_live_forecast rest None (example_app 2) ''P9'') =
           Inl (HTTPException 500 (StrOf (NameError ''pd'')))
   \<and> LgbmPredict X \<notin> set (calls (generate_live_forecast rest None (example_app 2) ''P9''))"
proof -
  have nonempty: "weekly_history ''P9'' 2 \<noteq> []" by (simp add: weekly_history_nonempty)
  have enc: "models_encoder (example_app 2) = Some (LabelEncoder [''P1''])"
    by (simp add: example_app_def)
  have unseen: "''P9'' \<notin> set [''P1'']" by simp
  from unseen_product_request_returns_500 [OF find_weekly_P9 nonempty enc unseen] unseen
  show ?thesis by simp
qed

text \<open>Claim C7, as the code has it. No request deletes or inserts a forecast row: whatever the
  history and the database do, a request leaves both tables as they were and calls neither
  \<^verbatim>\<open>delete_many\<close> nor \<^verbatim>\<open>create_many\<close>; so after two requests in succession the rows persisted
  for the product are still those that were there before the first one.\<close>

theorem live_forecast_never_deletes_or_inserts:
  "app_after (generate_live_forecast rest db_error A product_id) = A
   \<and> DeleteMany q \<notin> set (calls (generate_live_forecast rest db_error A product_id))
   \<and> CreateMany records \<notin> set (calls (generate_live_forecast rest db_error A product_id))
   \<and> product_rows product_id (salesforecast (app_after
        (generate_live_forecast rest' db_error'
           (app_after (generate_live_forecast rest db_error A product_id)) product_id)))
     = product_rows product_id (salesforecast A)"
  by (simp add: glf_app_after glf_calls)

theorem live_forecast_never_deletes_or_inserts_witness:
  "\<forall>rest rest'. product_rows ''P1'' (salesforecast seeded_app) = stale_forecast
   \<and> product_rows ''P1'' (salesforecast (app_after
        (generate_live_forecast rest' None
           (app_after (generate_live_forecast rest None seeded_app ''P1'')) ''P1'')))
     = stale_forecast"
proof -
  have "product_rows ''P1'' (salesforecast seeded_app) = stale_forecast"
    by (simp add: product_rows_def seeded_app_def stale_forecast_def)
  with live_forecast_never_deletes_or_inserts [where A = seeded_app and product_id = "''P1''"
      and db_error = None and db_error' = None]
  show ?thesis by simp
qed

text \<open>Claim C8, as the code has it. No request passes a feature vector to the correction
  model: every request ends with status 500, and \<^verbatim>\<open>predict\<close> of the correction model is not
  among its calls.\<close>

theorem no_feature_vector_reaches_the_correction_model:
  "LgbmPredict X \<notin> set (calls (generate_live_forecast rest db_error A product_id))
   \<and> (\<exists>e. result (generate_live_forecast rest db_error A product_id)
            = Inl (HTTPException 500 (StrOf e)))"
  by (simp add: glf_calls glf_result)

theorem no_feature_vector_reaches_the_correction_model_witness:
  "\<forall>rest X. LgbmPredict X \<notin> set (calls (generate_live_forecast rest None (example_app 3) ''P1''))
   \<and> (\<exists>e. result (generate_live_forecast rest None (example_app 3) ''P1'')
            = Inl (HTTPException 500 (StrOf e)))"
  using no_feature_vector_reaches_the_correction_model
          [where A = "example_app 3" and product_id = "''P1''" and db_error = None]
  by blast

text \<open>Claim C9, as the code has it. No trend model is constructed, with yearly seasonality or
  without: for a history of more than 52 rows, as for any history that is not empty, the
  request ends at line 242 with the \<^verbatim>\<open>NameError\<close>, reported as status 500, before line 252
  computes the seasonality flag, and no \<^verbatim>\<open>Prophet\<close> is built or fit.\<close>

theorem no_trend_model_is_constructed:
  assumes "saleshistory_find_many db_error (saleshistory A) product_id = Inr history_records"
      and "52 < length history_records"
  shows "result (generate_live_forecast rest db_error A product_id) =
           Inl (HTTPException 500 (StrOf (NameError ''pd'')))
       \<and> ProphetFit \<lparr>yearly_seasonality = True, weekly_seasonality = False,
                      daily_seasonality = False\<rparr> df
           \<notin> set (calls (generate_live_forecast rest db_error A product_id))
       \<and> (\<forall>args. ProphetFit args df
           \<notin> set (calls (generate_live_forecast rest db_error A product_id)))"
proof -
  from assms(2) have "history_records \<noteq> []" by auto
  from glf_nonempty [OF assms(1) this] show ?thesis by simp
qed

theorem no_trend_model_is_constructed_witness:
  "\<forall>rest df. 52 < length (weekly_history ''P1'' 53)
   \<and> result (generate_live_forecast rest None (example_app 53) ''P1'') =
           Inl (HTTPException 500 (StrOf (NameError ''pd'')))
   \<and> ProphetFit \<lparr>yearly_seasonality = True, weekly_seasonality = False,
                  daily_seasonality = False\<rparr> df
           \<notin> set (calls (generate_live_forecast rest None (example_app 53) ''P1''))"
proof -
  have long: "52 < length (weekly_history ''P1'' 53)" by (simp add: weekly_history_length)
  from no_trend_model_is_constructed [OF find_weekly_P1 long] long
  show ?thesis by simp
qed

text \<open>Claim C10, as the code has it. For a history that is not empty the outcome of a request
  is the same whatever the statements after line 242 would do, the storage read among them:
  the request ends with the \<^verbatim>\<open>NameError\<close>, reported as status 500, before
  \<^verbatim>\<open>download_pickle\<close> is called, neither branch of \<^verbatim>\<open>if m:\<close> is reached, and no trend model
  is constructed or fit.\<close>

theorem artifact_is_never_read_and_no_model_is_fit:
  assumes "saleshistory_find_many db_error (saleshistory A) product_id = Inr history_records"
      and "history_records \<noteq> []"
  shows "generate_live_forecast rest db_error A product_id
           = generate_live_forecast rest' db_error A product_id
       \<and> result (generate_live_forecast rest db_error A product_id) =
           Inl (HTTPException 500 (StrOf (NameError ''pd'')))
       \<and> DownloadPickle f \<notin> set (calls (generate_live_forecast rest db_error A product_id))
       \<and> ProphetFit args df \<notin> set (calls (generate_live_forecast rest db_error A product_id))"
  by (simp add: glf_nonempty [OF assms])

theorem artifact_is_never_read_and_no_model_is_fit_witness:
  "\<forall>rest f. result (generate_live_forecast rest None (example_app 4) ''P1'') =
           Inl (HTTPException 500 (StrOf (NameError ''pd'')))
   \<and> DownloadPickle f \<notin> set (calls (generate_live_forecast rest None (example_app 4) ''P1''))"
proof -
  have "weekly_history ''P1'' 4 \<noteq> []" by (simp add: weekly_history_nonempty)
  from artifact_is_never_read_and_no_model_is_fit [OF find_weekly_P1 this]
  show ?thesis by simp
qed




text \<open>Claim C4, as the code has it. The local backend lets the exception of a failed read or
  write of an existing artifact reach its caller; the Azure backend lets the exceptions of an
  upload and of the loading of the boosted-tree model reach the caller, but its
  \<^verbatim>\<open>download_pickle\<close> and \<^verbatim>\<open>load_prophet_model\<close> catch every exception and return \<^verbatim>\<open>None\<close>, the
  value that stands for a missing artifact.\<close>

theorem load_failures_local_raises_azure_absent:
  assumes readable: "path_exists D (path_join base_dir (''prophet_'' @ product_id @ ''.pkl''))"
      and unreadable: "read_pickle D (path_join base_dir (''prophet_'' @ product_id @ ''.pkl''))
                         = Inl e"
      and json_file: "path_exists D (path_join (path_join base_dir' ''prophet_individual'')
                   (product_id @ ''.json''))"
      and unreadable_json: "read_prophet_json D (path_join (path_join base_dir'
                   ''prophet_individual'') (product_id @ ''.json'')) = Inl e'"
      and blob: "blob_read_pickle C (''prophet_'' @ product_id @ ''.pkl'') = Inl e2"
      and blob_json: "blob_prophet_json C (''prophet_individual/'' @ product_id @ ''.json'')
                        = Inl e3"
  shows "LocalStorage_download_pickle D base_dir (''prophet_'' @ product_id @ ''.pkl'') = Inl e
       \<and> LocalStorage_load_prophet_model D base_dir' product_id = Inl e'
       \<and> LocalStorage_upload_pickle D base_dir obj f = write_pickle D (path_join base_dir f) obj
       \<and> AzureBlobStorage_upload_pickle C obj f = blob_upload_pickle C f obj
       \<and> AzureBlobStorage_load_lgbm C f = blob_booster C f
       \<and> AzureBlobStorage_download_pickle C (''prophet_'' @ product_id @ ''.pkl'') = Inr None
       \<and> AzureBlobStorage_load_prophet_model C product_id = Inr None"
proof -
  have local: "LocalStorage_download_pickle D base_dir (''prophet_'' @ product_id @ ''.pkl'')
      = Inl e"
    using readable unreadable by (simp add: LocalStorage_download_pickle_def Let_def)
  have azure: "AzureBlobStorage_download_pickle C (''prophet_'' @ product_id @ ''.pkl'')
      = Inr None"
    using blob by (simp add: AzureBlobStorage_download_pickle_def)
  have json_local: "LocalStorage_load_prophet_model D base_dir' product_id = Inl e'"
    using json_file unreadable_json by (simp add: LocalStorage_load_prophet_model_def Let_def)
  have json_azure: "AzureBlobStorage_load_prophet_model C product_id = Inr None"
    using blob_json by (simp add: AzureBlobStorage_load_prophet_model_def)
  from local azure json_local json_azure show ?thesis
    by (simp add: LocalStorage_upload_pickle_def AzureBlobStorage_upload_pickle_def
        AzureBlobStorage_load_lgbm_def)
qed

theorem load_failures_local_raises_azure_absent_witness:
  "LocalStorage_download_pickle unreadable_disk ''models_local'' (''prophet_'' @ ''P1'' @ ''.pkl'')
     = Inl PermissionError
   \<and> LocalStorage_load_prophet_model unreadable_disk ''./ml_bin'' ''P1'' = Inl PermissionError
   \<and> AzureBlobStorage_download_pickle unreachable_container (''prophet_'' @ ''P1'' @ ''.pkl'')
     = Inr None
   \<and> AzureBlobStorage_load_prophet_model unreachable_container ''P1'' = Inr None"
proof -
  have readable: "path_exists unreadable_disk
      (path_join ''models_local'' (''prophet_'' @ ''P1'' @ ''.pkl''))"
    by (simp add: unreadable_disk_def)
  have unreadable: "read_pickle unreadable_disk
      (path_join ''models_local'' (''prophet_'' @ ''P1'' @ ''.pkl'')) = Inl PermissionError"
    by (simp add: unreadable_disk_def)
  have json_file: "path_exists unreadable_disk (path_join (path_join ''./ml_bin''
      ''prophet_individual'') (''P1'' @ ''.json''))"
    by (simp add: unreadable_disk_def)
  have unreadable_json: "read_prophet_json unreadable_disk (path_join (path_join ''./ml_bin''
      ''prophet_individual'') (''P1'' @ ''.json'')) = Inl PermissionError"
    by (simp add: unreadable_disk_def)
  have blob: "blob_read_pickle unreachable_container (''prophet_'' @ ''P1'' @ ''.pkl'')
      = Inl ServiceRequestError"
    by (simp add: unreachable_container_def)
  have blob_json: "blob_prophet_json unreachable_container
      (''prophet_individual/'' @ ''P1'' @ ''.json'') = Inl ServiceRequestError"
    by (simp add: unreachable_container_def)
  from load_failures_local_raises_azure_absent [OF readable unreadable json_file unreadable_json
      blob blob_json]
  show ?thesis by blast
qed

theorem azure_failed_load_reported_absent:
  "blob_read_pickle unreachable_container ''prophet_P1.pkl'' = Inl ServiceRequestError
   \<and> AzureBlobStorage_download_pickle unreachable_container ''prophet_P1.pkl'' = Inr None
   \<and> blob_read_pickle mismatch_container ''prophet_P1.pkl'' = Inl ResourceNotFoundError
   \<and> AzureBlobStorage_download_pickle mismatch_container ''prophet_P1.pkl'' = Inr None
   \<and> blob_prophet_json unreachable_container ''prophet_individual/P1.json''
       = Inl ServiceRequestError
   \<and> AzureBlobStorage_load_prophet_model unreachable_container ''P1'' = Inr None"
  by (simp add: AzureBlobStorage_download_pickle_def AzureBlobStorage_load_prophet_model_def
      unreachable_container_def mismatch_container_def)

end
